theory Spec2Isabelle
  imports Main "HOL-Library.FSet" "HOL-Library.List_Lexorder" "HOL-Library.Char_ord"
begin

section \<open>Values and the Python operations the gallery uses on them\<close>

text \<open>
  The documents that \<open>yaml.load\<close> returns are built from null, strings, sequences and
  mappings. A mapping is kept as the list of its items in insertion order, the order in
  which a Python dict iterates; its keys are strings. Numbers and booleans are left out of
  the model.
\<close>

datatype yaml = YNull | YStr string | YList "yaml list" | YMap "(string \<times> yaml) list"

text \<open>
  The exceptions: the first four are Python's own, \<open>FetchError\<close> is whatever
  \<open>urlopen\<close>, \<open>decode\<close> or \<open>yaml.load\<close> raises, and \<open>Blocked\<close> stands for waiting
  on a task that never finishes.
\<close>

datatype error = KeyError | TypeError | AttributeError | NameError | FetchError | Blocked

definition bindE :: "error + 'a \<Rightarrow> ('a \<Rightarrow> error + 'b) \<Rightarrow> error + 'b" where
  "bindE m f = (case m of Inl e \<Rightarrow> Inl e | Inr x \<Rightarrow> f x)"

text \<open>Evaluates \<open>f\<close> on each element from left to right and stops at the first exception.\<close>

fun collect :: "('a \<Rightarrow> error + 'b) \<Rightarrow> 'a list \<Rightarrow> error + 'b list" where
  "collect f [] = Inr []"
| "collect f (x # xs) = bindE (f x) (\<lambda>y. bindE (collect f xs) (\<lambda>ys. Inr (y # ys)))"

text \<open>\<open>d[k]\<close>: only a mapping can be subscripted with a string, and the key has to be there.\<close>

fun subscript :: "yaml \<Rightarrow> string \<Rightarrow> error + yaml" where
  "subscript (YMap m) k = (case map_of m k of None \<Rightarrow> Inl KeyError | Some v \<Rightarrow> Inr v)"
| "subscript _ k = Inl TypeError"

text \<open>\<open>d.get(k, default)\<close>: null, strings and sequences have no such method.\<close>

fun py_get :: "yaml \<Rightarrow> string \<Rightarrow> yaml \<Rightarrow> error + yaml" where
  "py_get (YMap m) k d = Inr (case map_of m k of None \<Rightarrow> d | Some v \<Rightarrow> v)"
| "py_get _ k d = Inl AttributeError"

text \<open>\<open>d.items()\<close>.\<close>

fun py_items :: "yaml \<Rightarrow> error + (string \<times> yaml) list" where
  "py_items (YMap m) = Inr m"
| "py_items _ = Inl AttributeError"

text \<open>
  \<open>for item in v\<close>: a sequence yields its elements, a string its characters (each a
  string of length one), a mapping its keys; null cannot be iterated.
\<close>

fun py_iter :: "yaml \<Rightarrow> error + yaml list" where
  "py_iter (YList xs) = Inr xs"
| "py_iter (YStr s) = Inr (map (\<lambda>c. YStr [c]) s)"
| "py_iter (YMap m) = Inr (map (\<lambda>kv. YStr (fst kv)) m)"
| "py_iter YNull = Inl TypeError"

text \<open>The truth value of \<open>if v\<close>.\<close>

fun truthy :: "yaml \<Rightarrow> bool" where
  "truthy YNull = False"
| "truthy (YStr s) = (s \<noteq> [])"
| "truthy (YList xs) = (xs \<noteq> [])"
| "truthy (YMap m) = (m \<noteq> [])"

text \<open>
  The elements of a Python set have to be hashable: of the values of the model, null and
  strings are, sequences and mappings are not.
\<close>

datatype hval = HNone | HStr string

fun py_hash :: "yaml \<Rightarrow> error + hval" where
  "py_hash YNull = Inr HNone"
| "py_hash (YStr s) = Inr (HStr s)"
| "py_hash _ = Inl TypeError"

text \<open>\<open>s.update(v)\<close>: iterates \<open>v\<close> and adds each element to the set.\<close>

definition set_update :: "hval fset \<Rightarrow> yaml \<Rightarrow> error + hval fset" where
  "set_update S v =
     bindE (py_iter v) (\<lambda>xs. bindE (collect py_hash xs) (\<lambda>hs. Inr (S |\<union>| fset_of_list hs)))"

text \<open>
  \<open>sorted(s)\<close> compares elements with \<open><\<close>, which is the lexicographic order by code
  point on strings and raises between null and a string. A set holds null at most once,
  and a list of one element is sorted without any comparison.
\<close>

fun the_str :: "hval \<Rightarrow> string" where
  "the_str (HStr s) = s"
| "the_str HNone = []"

definition py_sorted :: "hval fset \<Rightarrow> error + hval list" where
  "py_sorted S =
     (if HNone |\<in>| S then (if S = {|HNone|} then Inr [HNone] else Inl TypeError)
      else Inr (map HStr (sorted_list_of_fset (the_str |`| S))))"

text \<open>
  What an f-string prints for a value: a string as it is, null as \<open>None\<close>. The text
  printed for a sequence or a mapping is Python's \<open>repr\<close>, which is a parameter here.
\<close>

fun py_str :: "(yaml \<Rightarrow> string) \<Rightarrow> yaml \<Rightarrow> string" where
  "py_str repr (YStr s) = s"
| "py_str repr YNull = ''None''"
| "py_str repr v = repr v"

fun hval_str :: "hval \<Rightarrow> string" where
  "hval_str (HStr s) = s"
| "hval_str HNone = ''None''"

section \<open>Styles\<close>

datatype sval = SStr string | SInt int

type_synonym style = "(string \<times> sval) list"

definition LAYOUT_STYLE :: style where
  "LAYOUT_STYLE =
     [(''display'', SStr ''inline-block''), (''borderRadius'', SInt 8),
      (''color'', SStr ''white''), (''padding'', SInt 5), (''margin'', SInt 5)]"

definition DEFAULT_STYLE :: style where
  "DEFAULT_STYLE = (''background'', SStr ''#4E66F6'') # LAYOUT_STYLE"

definition styles :: "(string \<times> style) list" where
  "styles =
     [(''domains'', (''background'', SStr ''#7A77B4'') # LAYOUT_STYLE),
      (''packages'', (''background'', SStr ''#B83BC0'') # LAYOUT_STYLE)]"

text \<open>\<open>styles.get(category, DEFAULT_STYLE)\<close>.\<close>

definition styles_get :: "string \<Rightarrow> style" where
  "styles_get category = (case map_of styles category of None \<Rightarrow> DEFAULT_STYLE | Some s \<Rightarrow> s)"

section \<open>Tree nodes\<close>

text \<open>
  Modelled from the spec: the module \<open>unist\<close> (\<open>text\<close>, \<open>image\<close>, \<open>span\<close>, \<open>div\<close>,
  \<open>grid\<close>, \<open>find_all_by_type\<close>) is not among the sources. The spec calls its functions
  generic tree-node constructors, so each one is a constructor that records its arguments.
  The nodes that the gallery writes as dict literals (card, card title, checkbox input)
  have a constructor each; \<open>Generic\<close> is any other node of the document tree: its type
  tag, its other properties and its children. The cards handed to the grid are
  \<open>node option\<close>, since \<open>render_cookbook\<close> may return \<open>None\<close>.
\<close>

datatype attr = AStyle style | AClass "string list"

datatype node =
    Text yaml
  | Img string
  | Span "node list" "attr list"
  | Div "node list" "attr list"
  | Grid "nat list" "node option list"
  | Card string "yaml list" "node list"
  | CardTitle "node list"
  | Checkbox hval
  | Generic string "(string \<times> yaml) list" "node list"

section \<open>Fetching the metadata of one cookbook\<close>

record cookbook =
  title :: yaml
  book_url :: string
  image_url :: string
  tags :: yaml

definition raw_base_url :: "string \<Rightarrow> string" where
  "raw_base_url name = ''https://raw.githubusercontent.com/ProjectPythia-MystMD/'' @ name @ ''/main''"

definition config_url :: "string \<Rightarrow> string" where
  "config_url name = raw_base_url name @ ''/myst.yml''"

definition gallery_url :: "string \<Rightarrow> string" where
  "gallery_url name = raw_base_url name @ ''/_gallery_info.yml''"

text \<open>
  \<open>fetch_yaml\<close> reads the network: \<open>net url\<close> is the decoded document, or \<open>None\<close>
  when the request or the decoding raises.
\<close>

definition fetch_yaml :: "(string \<Rightarrow> yaml option) \<Rightarrow> string \<Rightarrow> error + yaml" where
  "fetch_yaml net url = (case net url of None \<Rightarrow> Inl FetchError | Some doc \<Rightarrow> Inr doc)"

definition fetch_cookbook_data ::
  "(yaml \<Rightarrow> string) \<Rightarrow> (string \<Rightarrow> yaml option) \<Rightarrow> string \<Rightarrow> cookbook option" where
  "fetch_cookbook_data repr net name =
     (case
        bindE (fetch_yaml net (config_url name)) (\<lambda>config.
        bindE (subscript config ''project'') (\<lambda>project.
        bindE (subscript project ''title'') (\<lambda>title.
        bindE (fetch_yaml net (gallery_url name)) (\<lambda>gallery_data.
        bindE (subscript gallery_data ''thumbnail'') (\<lambda>thumbnail.
        bindE (py_get gallery_data ''tags'' (YMap [])) (\<lambda>tags.
        Inr \<lparr>title = title,
             book_url = ''https://projectpythia-mystmd.github.io/'' @ name,
             image_url = raw_base_url name @ ''/'' @ py_str repr thumbnail,
             tags = tags\<rparr>))))))
      of Inl err \<Rightarrow> None | Inr data \<Rightarrow> Some data)"

section \<open>Rendering one card\<close>

definition card_class :: "yaml \<Rightarrow> error + yaml list" where
  "card_class tgs =
     bindE (py_items tgs) (\<lambda>kvs.
     bindE (collect (\<lambda>kv. py_iter (snd kv)) kvs) (\<lambda>iss.
     Inr (YStr ''tagged-card'' # concat iss)))"

definition card_labels :: "yaml \<Rightarrow> error + node list" where
  "card_labels tgs =
     bindE (py_items tgs) (\<lambda>kvs.
     bindE (collect (\<lambda>kv. bindE (py_iter (snd kv)) (\<lambda>items.
              Inr (map (\<lambda>item. Span [Text item] [AStyle (styles_get (fst kv))]) items)))
            (filter (\<lambda>kv. truthy (snd kv)) kvs)) (\<lambda>spans.
     Inr (concat spans)))"

definition render_cookbook :: "string \<Rightarrow> cookbook \<Rightarrow> node option" where
  "render_cookbook name data =
     (case
        bindE (card_class (tags data)) (\<lambda>cls.
        bindE (card_labels (tags data)) (\<lambda>labels.
        Inr (Card (book_url data) cls
               [CardTitle [Text (title data)],
                Div [Img (image_url data), Div labels []] []])))
      of Inl err \<Rightarrow> None | Inr c \<Rightarrow> Some c)"

section \<open>Fetching all cookbooks through the thread pool\<close>

text \<open>
  \<open>pool.map(fn, body)\<close> submits one task per element and keeps the futures in the order
  of submission; the tasks finish in any order. \<open>finish i\<close> is the time at which the task
  of position \<open>i\<close> finishes: the tasks write their results into their own slots in the
  order of these times, and \<open>list\<close> then reads the slots from first to last. Each task
  has its own view of the network, \<open>net i\<close>, since two requests for one URL may be
  answered differently.
\<close>

definition run_tasks :: "(nat \<Rightarrow> nat) \<Rightarrow> (nat \<Rightarrow> 'a \<Rightarrow> 'b) \<Rightarrow> 'a list \<Rightarrow> 'b option list" where
  "run_tasks finish fn xs =
     foldl (\<lambda>slots i. slots[i := Some (fn i (xs ! i))])
       (replicate (length xs) None) (sort_key finish [0..<length xs])"

definition pool_map :: "(nat \<Rightarrow> nat) \<Rightarrow> (nat \<Rightarrow> 'a \<Rightarrow> 'b) \<Rightarrow> 'a list \<Rightarrow> 'b list option" where
  "pool_map finish fn xs = those (run_tasks finish fn xs)"

definition fetch_all ::
  "(yaml \<Rightarrow> string) \<Rightarrow> (nat \<Rightarrow> string \<Rightarrow> yaml option) \<Rightarrow> (nat \<Rightarrow> nat) \<Rightarrow> string list
     \<Rightarrow> cookbook option list option" where
  "fetch_all repr net finish body = pool_map finish (\<lambda>i. fetch_cookbook_data repr (net i)) body"

section \<open>Rendering the gallery\<close>

record tag_index =
  domains :: "hval fset"
  packages :: "hval fset"

text \<open>\<open>tag_lists[category].update(data["tags"].get(category, []))\<close>.\<close>

definition collect_category :: "string \<Rightarrow> cookbook \<Rightarrow> hval fset \<Rightarrow> error + hval fset" where
  "collect_category category data S = bindE (py_get (tags data) category (YList [])) (set_update S)"

text \<open>
  The inner loop \<open>for category in tag_lists.keys()\<close>, over the two keys of the dict
  literal in their order. The loop variable \<open>category\<close> is a local variable of
  \<open>render_cookbooks\<close> and keeps its last value after the loop.
\<close>

definition collect_tags ::
  "cookbook \<Rightarrow> tag_index \<times> string option \<Rightarrow> error + tag_index \<times> string option" where
  "collect_tags data st =
     bindE (collect_category ''domains'' data (domains (fst st))) (\<lambda>d.
     bindE (collect_category ''packages'' data (packages (fst st))) (\<lambda>p.
     Inr (\<lparr>domains = d, packages = p\<rparr>, Some ''packages'')))"

text \<open>
  The local variables of \<open>render_cookbooks\<close> that the loop changes; \<open>category\<close> is
  \<open>None\<close> as long as it is unbound. A failed rendering is stored as the value \<open>None\<close>
  under the key \<open>name\<close>.
\<close>

record state =
  cookbook_data :: "string \<rightharpoonup> node option"
  tag_lists :: tag_index
  category :: "string option"

definition init_state :: state where
  "init_state = \<lparr>cookbook_data = Map.empty,
                 tag_lists = \<lparr>domains = {||}, packages = {||}\<rparr>, category = None\<rparr>"

text \<open>
  \<open>for name, data in zip(body, cookbook_entries): if data: ...\<close>. A fetched record is a
  dict of four keys, which is true; only \<open>None\<close> is skipped. The card is rendered
  before the tags are collected; an exception of the collection is not caught and ends
  the whole function, so the order of the two does not show in the result.
\<close>

fun render_loop :: "(string \<times> cookbook option) list \<Rightarrow> state \<Rightarrow> error + state" where
  "render_loop [] st = Inr st"
| "render_loop ((name, None) # rest) st = render_loop rest st"
| "render_loop ((name, Some data) # rest) st =
     bindE (collect_tags data (tag_lists st, category st)) (\<lambda>tc.
     render_loop rest
       \<lparr>cookbook_data = (cookbook_data st)(name \<mapsto> render_cookbook name data),
        tag_lists = fst tc, category = snd tc\<rparr>)"

text \<open>
  One row of a filter group. Its style is \<open>styles.get(category, DEFAULT_STYLE)\<close>, where
  \<open>category\<close> is the variable of the function: reading it while unbound raises.
\<close>

definition control_row :: "string option \<Rightarrow> hval \<Rightarrow> error + node" where
  "control_row cat tag =
     (case cat of
        None \<Rightarrow> Inl NameError
      | Some c \<Rightarrow> Inr (Div [Checkbox tag, Text (YStr ('' '' @ hval_str tag))] [AStyle (styles_get c)]))"

definition controls_group :: "string \<Rightarrow> string \<Rightarrow> string option \<Rightarrow> hval fset \<Rightarrow> error + node" where
  "controls_group label cls cat S =
     bindE (py_sorted S) (\<lambda>tgs.
     bindE (collect (control_row cat) tgs) (\<lambda>rows.
     Inr (Div (Span [Text (YStr label)] [AStyle [(''fontWeight'', SStr ''bold'')]] # rows)
            [AClass [cls]])))"

text \<open>The two filter groups and their wrapper: lines 120 to 174.\<close>

definition controls_node :: "string option \<Rightarrow> tag_index \<Rightarrow> error + node" where
  "controls_node cat idx =
     bindE (controls_group ''Filter by Domain:'' ''domains'' cat (domains idx)) (\<lambda>domains_controls.
     bindE (controls_group ''Filter by Package:'' ''packages'' cat (packages idx)) (\<lambda>packages_controls.
     Inr (Div [domains_controls, packages_controls] [AClass [''filter-controls'']])))"

text \<open>
  \<open>render_cookbooks\<close> from the line after the fetch: lines 107 to 176. The cards are
  \<open>[cookbook_data[name] for name in body if name in cookbook_data]\<close>.
\<close>

definition render_cookbooks_from ::
  "string list \<Rightarrow> cookbook option list \<Rightarrow> error + node \<times> node option list" where
  "render_cookbooks_from body cookbook_entries =
     bindE (render_loop (zip body cookbook_entries) init_state) (\<lambda>st.
     bindE (controls_node (category st) (tag_lists st)) (\<lambda>controls.
     Inr (controls, List.map_filter (cookbook_data st) body)))"

text \<open>\<open>body\<close> is the list of the lines of \<open>cookbook_gallery.txt\<close>.\<close>

definition render_cookbooks ::
  "(yaml \<Rightarrow> string) \<Rightarrow> (nat \<Rightarrow> string \<Rightarrow> yaml option) \<Rightarrow> (nat \<Rightarrow> nat) \<Rightarrow> string list
     \<Rightarrow> error + node \<times> node option list" where
  "render_cookbooks repr net finish body =
     (case fetch_all repr net finish body of
        None \<Rightarrow> Inl Blocked
      | Some cookbook_entries \<Rightarrow> render_cookbooks_from body cookbook_entries)"

text \<open>
  Modelled from the spec: \<open>find_all_by_type\<close> is not among the sources; the spec says that
  every placeholder node of the document tree is located and rewritten in place: its
  properties are cleared, its type becomes \<open>container\<close> and the fragment becomes its
  children.
\<close>

fun replace_placeholders :: "node list \<Rightarrow> node \<Rightarrow> node" where
  "replace_placeholders frag (Generic ty props children) =
     (if ty = ''pythia-cookbooks'' then Generic ''container'' [] frag
      else Generic ty props (map (replace_placeholders frag) children))"
| "replace_placeholders frag n = n"

definition run_transform ::
  "(yaml \<Rightarrow> string) \<Rightarrow> (nat \<Rightarrow> string \<Rightarrow> yaml option) \<Rightarrow> (nat \<Rightarrow> nat) \<Rightarrow> string list
     \<Rightarrow> node \<Rightarrow> error + node" where
  "run_transform repr net finish body data =
     bindE (render_cookbooks repr net finish body) (\<lambda>r.
     Inr (replace_placeholders [fst r, Grid [1, 1, 2, 3] (snd r)] data))"

section \<open>Notions used to state the properties\<close>

text \<open>
  The aggregation of the loop alone, lines 110, 111, 115 and 116: the set updates of every
  entry that holds data, without the call of \<open>render_cookbook\<close>.
\<close>

fun aggregate ::
  "cookbook option list \<Rightarrow> tag_index \<times> string option \<Rightarrow> error + tag_index \<times> string option" where
  "aggregate [] tc = Inr tc"
| "aggregate (None # es) tc = aggregate es tc"
| "aggregate (Some data # es) tc = bindE (collect_tags data tc) (aggregate es)"

text \<open>The records of a list of fetch results, and the resources whose fetch succeeded.\<close>

definition fetched :: "cookbook option list \<Rightarrow> cookbook list" where
  "fetched es = List.map_filter id es"

definition successful :: "string list \<Rightarrow> cookbook option list \<Rightarrow> (string \<times> cookbook option) list" where
  "successful body cookbook_entries = filter (\<lambda>z. snd z \<noteq> None) (zip body cookbook_entries)"

text \<open>The tags that one record adds to a category, where its tags can be collected at all.\<close>

definition record_tags :: "string \<Rightarrow> cookbook \<Rightarrow> hval fset" where
  "record_tags cat data = (case collect_category cat data {||} of Inl e \<Rightarrow> {||} | Inr T \<Rightarrow> T)"

definition collectable :: "cookbook \<Rightarrow> bool" where
  "collectable data =
     (\<not> isl (collect_category ''domains'' data {||}) \<and> \<not> isl (collect_category ''packages'' data {||}))"

text \<open>Python's \<open><\<close> on set elements, where it is defined.\<close>

fun hval_less :: "hval \<Rightarrow> hval \<Rightarrow> bool" where
  "hval_less (HStr a) (HStr b) = (a < b)"
| "hval_less _ _ = False"

text \<open>Reading a rendered tree: the tag of a filter row, the tags of a filter group, the
  class list of a card, and the elements that iterating a value yields.\<close>

fun row_tag :: "node \<Rightarrow> hval list" where
  "row_tag (Div (Checkbox t # rest) attrs) = [t]"
| "row_tag _ = []"

fun group_tags :: "node \<Rightarrow> hval list" where
  "group_tags (Div (label # rows) attrs) = concat (map row_tag rows)"
| "group_tags _ = []"

fun card_classes :: "node \<Rightarrow> yaml list" where
  "card_classes (Card url cls children) = cls"
| "card_classes _ = []"

definition elements :: "yaml \<Rightarrow> yaml list" where
  "elements v = (case py_iter v of Inl e \<Rightarrow> [] | Inr xs \<Rightarrow> xs)"

text \<open>
  The items that the aggregation reads from a record for a category: what iterating
  \<open>data["tags"].get(category, [])\<close> yields.
\<close>

definition category_items :: "string \<Rightarrow> cookbook \<Rightarrow> yaml list" where
  "category_items cat data =
     (case py_get (tags data) cat (YList []) of
        Inl e \<Rightarrow> []
      | Inr v \<Rightarrow> (case py_iter v of Inl e \<Rightarrow> [] | Inr items \<Rightarrow> items))"

section \<open>Example inputs\<close>

text \<open>
  Four fetched records: one without tags, one with an unsorted domain sequence that
  repeats a tag, one whose \<open>_gallery_info.yml\<close> has a category with no value
  (\<open>formats:\<close> followed by nothing), which YAML reads as null, and one where the
  category without a value is \<open>packages\<close>.
\<close>

definition example_plain :: cookbook where
  "example_plain =
     \<lparr>title = YStr ''Plain'', book_url = ''https://projectpythia-mystmd.github.io/b'',
      image_url = ''https://raw.githubusercontent.com/ProjectPythia-MystMD/b/main/thumb.png'',
      tags = YMap []\<rparr>"

definition example_tagged :: cookbook where
  "example_tagged =
     \<lparr>title = YStr ''Tagged'', book_url = ''https://projectpythia-mystmd.github.io/a'',
      image_url = ''https://raw.githubusercontent.com/ProjectPythia-MystMD/a/main/thumb.png'',
      tags = YMap [(''domains'', YList [YStr ''radar'', YStr ''ocean'', YStr ''radar'']),
                   (''packages'', YList [YStr ''xarray''])]\<rparr>"

definition example_malformed :: cookbook where
  "example_malformed =
     \<lparr>title = YStr ''Malformed'', book_url = ''https://projectpythia-mystmd.github.io/c'',
      image_url = ''https://raw.githubusercontent.com/ProjectPythia-MystMD/c/main/thumb.png'',
      tags = YMap [(''domains'', YList [YStr ''radar'']), (''formats'', YNull)]\<rparr>"

definition example_null_packages :: cookbook where
  "example_null_packages =
     \<lparr>title = YStr ''Null packages'', book_url = ''https://projectpythia-mystmd.github.io/d'',
      image_url = ''https://raw.githubusercontent.com/ProjectPythia-MystMD/d/main/thumb.png'',
      tags = YMap [(''domains'', YList [YStr ''radar'']), (''packages'', YNull)]\<rparr>"

definition plain_card :: node where
  "plain_card =
     Card ''https://projectpythia-mystmd.github.io/b'' [YStr ''tagged-card'']
       [CardTitle [Text (YStr ''Plain'')],
        Div [Img ''https://raw.githubusercontent.com/ProjectPythia-MystMD/b/main/thumb.png'',
             Div [] []] []]"

definition tagged_card :: node where
  "tagged_card =
     Card ''https://projectpythia-mystmd.github.io/a''
       [YStr ''tagged-card'', YStr ''radar'', YStr ''ocean'', YStr ''radar'', YStr ''xarray'']
       [CardTitle [Text (YStr ''Tagged'')],
        Div [Img ''https://raw.githubusercontent.com/ProjectPythia-MystMD/a/main/thumb.png'',
             Div [Span [Text (YStr ''radar'')] [AStyle (styles_get ''domains'')],
                  Span [Text (YStr ''ocean'')] [AStyle (styles_get ''domains'')],
                  Span [Text (YStr ''radar'')] [AStyle (styles_get ''domains'')],
                  Span [Text (YStr ''xarray'')] [AStyle (styles_get ''packages'')]] []] []]"

definition bold :: "attr list" where
  "bold = [AStyle [(''fontWeight'', SStr ''bold'')]]"

definition tagged_controls :: node where
  "tagged_controls =
     Div [Div [Span [Text (YStr ''Filter by Domain:'')] bold,
               Div [Checkbox (HStr ''ocean''), Text (YStr '' ocean'')]
                 [AStyle (styles_get ''packages'')],
               Div [Checkbox (HStr ''radar''), Text (YStr '' radar'')]
                 [AStyle (styles_get ''packages'')]]
            [AClass [''domains'']],
          Div [Span [Text (YStr ''Filter by Package:'')] bold,
               Div [Checkbox (HStr ''xarray''), Text (YStr '' xarray'')]
                 [AStyle (styles_get ''packages'')]]
            [AClass [''packages'']]]
       [AClass [''filter-controls'']]"

definition malformed_controls :: node where
  "malformed_controls =
     Div [Div [Span [Text (YStr ''Filter by Domain:'')] bold,
               Div [Checkbox (HStr ''radar''), Text (YStr '' radar'')]
                 [AStyle (styles_get ''packages'')]]
            [AClass [''domains'']],
          Div [Span [Text (YStr ''Filter by Package:'')] bold] [AClass [''packages'']]]
       [AClass [''filter-controls'']]"

definition empty_index :: tag_index where
  "empty_index = \<lparr>domains = {||}, packages = {||}\<rparr>"

definition tagged_index :: tag_index where
  "tagged_index = \<lparr>domains = {|HStr ''ocean'', HStr ''radar''|}, packages = {|HStr ''xarray''|}\<rparr>"

text \<open>A network that serves the two documents of the cookbook \<open>b\<close> and nothing else.\<close>

definition example_config :: yaml where
  "example_config = YMap [(''project'', YMap [(''title'', YStr ''Plain'')])]"

definition example_gallery :: "(string \<times> yaml) list" where
  "example_gallery = [(''thumbnail'', YStr ''thumb.png'')]"

definition example_net :: "string \<Rightarrow> yaml option" where
  "example_net url =
     (if url = config_url ''b'' then Some example_config
      else if url = gallery_url ''b'' then Some (YMap example_gallery)
      else None)"

section \<open>Auxiliary facts\<close>

lemma bindE_Inl [simp]: "bindE (Inl e) f = Inl e"
  by (simp add: bindE_def)

lemma bindE_Inr [simp]: "bindE (Inr x) f = f x"
  by (simp add: bindE_def)

lemma bindE_eq_Inr: "bindE m f = Inr y \<longleftrightarrow> (\<exists>x. m = Inr x \<and> f x = Inr y)"
  by (cases m) simp_all

subsection \<open>The thread pool\<close>

lemma write_slots_length:
  "length (foldl (\<lambda>slots i. slots[i := g i]) slots0 js) = length slots0"
  by (induction js arbitrary: slots0) simp_all

lemma write_slots_nth:
  "j < length slots0 \<Longrightarrow>
   foldl (\<lambda>slots i. slots[i := g i]) slots0 js ! j = (if j \<in> set js then g j else slots0 ! j)"
proof (induction js arbitrary: slots0)
  case Nil
  then show ?case by simp
next
  case (Cons i js)
  then show ?case by (simp add: nth_list_update)
qed

lemma run_tasks_slots:
  "run_tasks finish fn xs = map (\<lambda>i. Some (fn i (xs ! i))) [0..<length xs]"
  unfolding run_tasks_def
  by (rule nth_equalityI) (simp_all add: write_slots_length write_slots_nth)

lemma those_map_Some: "those (map Some ys) = Some ys"
  by (induction ys) simp_all

lemma pool_map_in_order:
  "pool_map finish fn xs = Some (map (\<lambda>i. fn i (xs ! i)) [0..<length xs])"
proof -
  have "run_tasks finish fn xs = map Some (map (\<lambda>i. fn i (xs ! i)) [0..<length xs])"
    by (simp add: run_tasks_slots)
  then show ?thesis
    unfolding pool_map_def by (simp only: those_map_Some)
qed

subsection \<open>The loop over the fetch results\<close>

lemma render_loop_skips_failed:
  "render_loop (filter (\<lambda>z. snd z \<noteq> None) zs) st = render_loop zs st"
  by (induction zs st rule: render_loop.induct) simp_all

lemma render_loop_dom:
  "render_loop zs st = Inr st' \<Longrightarrow>
   dom (cookbook_data st') = dom (cookbook_data st) \<union> fst ` set (filter (\<lambda>z. snd z \<noteq> None) zs)"
proof (induction zs st rule: render_loop.induct)
  case (1 st)
  then show ?case by simp
next
  case (2 name rest st)
  then show ?case by auto
next
  case (3 name data rest st)
  from "3.prems" obtain tc where
    tc: "collect_tags data (tag_lists st, category st) = Inr tc" and
    run: "render_loop rest \<lparr>cookbook_data = (cookbook_data st)(name \<mapsto> render_cookbook name data),
        tag_lists = fst tc, category = snd tc\<rparr> = Inr st'"
    by (auto simp: bindE_eq_Inr)
  from "3.IH" [OF run] show ?case by (auto simp: image_iff split: if_splits)
qed

lemma render_loop_aggregate:
  "map_sum id (\<lambda>st. (tag_lists st, category st)) (render_loop zs st) =
   aggregate (map snd zs) (tag_lists st, category st)"
proof (induction zs st rule: render_loop.induct)
  case (3 name data rest st)
  show ?case
  proof (cases "collect_tags data (tag_lists st, category st)")
    case (Inl e)
    then show ?thesis by simp
  next
    case (Inr tc)
    then show ?thesis using "3.IH" [of tc] by simp
  qed
qed simp_all

lemma map_filter_dom:
  "List.map_filter m (filter (\<lambda>x. m x \<noteq> None) xs) = List.map_filter m xs"
  by (simp add: List.map_filter_def)

lemma zip_successful:
  "zip (map fst (successful body es)) (map snd (successful body es)) = successful body es"
  by (simp add: zip_map_fst_snd)

lemma successful_names:
  assumes len: "length es = length body"
    and together: "\<forall>z \<in> set (zip body es). \<forall>z' \<in> set (zip body es).
                     fst z = fst z' \<longrightarrow> (snd z = None \<longleftrightarrow> snd z' = None)"
    and dom: "dom m = fst ` set (successful body es)"
  shows "filter (\<lambda>n. m n \<noteq> None) body = map fst (successful body es)"
proof -
  have body: "body = map fst (zip body es)"
    using len by simp
  have "filter (\<lambda>n. m n \<noteq> None) (map fst (zip body es)) =
        map fst (filter (\<lambda>z. m (fst z) \<noteq> None) (zip body es))"
    by (simp add: filter_map o_def)
  also have "filter (\<lambda>z. m (fst z) \<noteq> None) (zip body es) = successful body es"
    unfolding successful_def
  proof (rule filter_cong [OF refl])
    fix z assume z: "z \<in> set (zip body es)"
    have "m (fst z) \<noteq> None \<longleftrightarrow> fst z \<in> dom m" by auto
    also have "\<dots> \<longleftrightarrow> (\<exists>z' \<in> set (zip body es). snd z' \<noteq> None \<and> fst z' = fst z)"
    proof -
      have "fst z \<in> fst ` set (successful body es) \<longleftrightarrow>
            (\<exists>z' \<in> set (successful body es). fst z' = fst z)"
        by (metis (no_types) image_iff)
      also have "\<dots> \<longleftrightarrow> (\<exists>z' \<in> set (zip body es). snd z' \<noteq> None \<and> fst z' = fst z)"
        unfolding successful_def set_filter by blast
      finally show ?thesis unfolding dom .
    qed
    also have "\<dots> \<longleftrightarrow> snd z \<noteq> None"
    proof
      assume "\<exists>z' \<in> set (zip body es). snd z' \<noteq> None \<and> fst z' = fst z"
      then obtain z' where "z' \<in> set (zip body es)" "snd z' \<noteq> None" "fst z' = fst z"
        by blast
      with together z show "snd z \<noteq> None" by metis
    next
      assume "snd z \<noteq> None"
      with z show "\<exists>z' \<in> set (zip body es). snd z' \<noteq> None \<and> fst z' = fst z" by blast
    qed
    finally show "(m (fst z) \<noteq> None) = (snd z \<noteq> None)" .
  qed
  finally show ?thesis using body by simp
qed

subsection \<open>Aggregation\<close>

lemma set_update_union:
  "set_update S v = map_sum id (\<lambda>T. S |\<union>| T) (set_update {||} v)"
proof (cases "py_iter v")
  case (Inl e)
  then show ?thesis by (simp add: set_update_def)
next
  case (Inr xs)
  then show ?thesis by (cases "collect py_hash xs") (simp_all add: set_update_def)
qed

lemma collect_category_union:
  "collect_category cat data S = map_sum id (\<lambda>T. S |\<union>| T) (collect_category cat data {||})"
proof (cases "py_get (tags data) cat (YList [])")
  case (Inl e)
  then show ?thesis by (simp add: collect_category_def)
next
  case (Inr v)
  then show ?thesis using set_update_union [of S v] by (simp add: collect_category_def)
qed

lemma collect_category_Inr_iff:
  "collect_category cat data S = Inr S' \<longleftrightarrow>
   \<not> isl (collect_category cat data {||}) \<and> S' = S |\<union>| record_tags cat data"
  by (subst collect_category_union, cases "collect_category cat data {||}")
     (auto simp: record_tags_def)

lemma collect_tags_Inr_iff:
  "collect_tags data (idx, c) = Inr r \<longleftrightarrow>
   collectable data \<and>
   r = (\<lparr>domains = domains idx |\<union>| record_tags ''domains'' data,
         packages = packages idx |\<union>| record_tags ''packages'' data\<rparr>, Some ''packages'')"
  unfolding collect_tags_def collectable_def
  by (auto simp: bindE_eq_Inr collect_category_Inr_iff)

lemma aggregate_Inr_iff:
  "aggregate es (idx, c) = Inr r \<longleftrightarrow>
   (\<forall>data \<in> set (fetched es). collectable data) \<and>
   r = (\<lparr>domains = domains idx |\<union>| ffUnion (record_tags ''domains'' |`| fset_of_list (fetched es)),
         packages = packages idx |\<union>| ffUnion (record_tags ''packages'' |`| fset_of_list (fetched es))\<rparr>,
        if fetched es = [] then c else Some ''packages'')"
proof (induction es arbitrary: idx c)
  case Nil
  then show ?case by (auto simp: fetched_def List.map_filter_simps)
next
  case (Cons e es)
  show ?case
  proof (cases e)
    case None
    then show ?thesis using Cons.IH [of idx c] by (simp add: fetched_def List.map_filter_simps)
  next
    case (Some data)
    have f: "fetched (e # es) = data # fetched es"
      using Some by (simp add: fetched_def List.map_filter_simps)
    show ?thesis
      unfolding f using Some
      by (auto simp: bindE_eq_Inr collect_tags_Inr_iff Cons.IH funion_assoc)
  qed
qed

lemma collect_Inr_map: "collect f xs = Inr ys \<Longrightarrow> map f xs = map Inr ys"
proof (induction xs arbitrary: ys)
  case Nil
  then show ?case by simp
next
  case (Cons x xs)
  then show ?case by (auto simp: bindE_eq_Inr)
qed

lemma category_items_hashed:
  assumes "\<not> isl (collect_category cat data {||})"
  shows "py_hash ` set (category_items cat data) = Inr ` fset (record_tags cat data)"
proof -
  from assms obtain T where T: "collect_category cat data {||} = Inr T"
    by (cases "collect_category cat data {||}") simp_all
  then obtain v xs hs where
    v: "py_get (tags data) cat (YList []) = Inr v" and
    xs: "py_iter v = Inr xs" and
    hs: "collect py_hash xs = Inr hs" and
    Teq: "T = fset_of_list hs"
    by (auto simp: collect_category_def set_update_def bindE_eq_Inr)
  have "py_hash ` set xs = set (map py_hash xs)" by simp
  also have "\<dots> = Inr ` set hs"
    using collect_Inr_map [OF hs] by simp
  finally have "py_hash ` set xs = Inr ` set hs" .
  moreover have "category_items cat data = xs"
    using v xs by (simp add: category_items_def)
  moreover have "fset (record_tags cat data) = set hs"
    using T Teq by (simp add: record_tags_def fset_of_list.rep_eq)
  ultimately show ?thesis by simp
qed

lemma in_ffUnion: "x |\<in>| A \<Longrightarrow> A |\<in>| S \<Longrightarrow> x |\<in>| ffUnion S"
  using ffUnion_fsubset_iff [of S "ffUnion S"] by auto

lemma record_tags_in_union:
  "data \<in> set ds \<Longrightarrow> record_tags cat data |\<subseteq>| S |\<union>| ffUnion (record_tags cat |`| fset_of_list ds)"
proof
  fix x assume "data \<in> set ds" "x |\<in>| record_tags cat data"
  then have "x |\<in>| ffUnion (record_tags cat |`| fset_of_list ds)"
    by (intro in_ffUnion [of x "record_tags cat data"]) (auto simp: fset_of_list_elem)
  then show "x |\<in>| S |\<union>| ffUnion (record_tags cat |`| fset_of_list ds)" by simp
qed

lemma fetched_member: "Some data \<in> set es \<Longrightarrow> data \<in> set (fetched es)"
  by (induction es) (auto simp: fetched_def List.map_filter_simps split: option.splits)

subsection \<open>Sorting and reading the rendered tree\<close>

lemma HStr_the_str: "h \<noteq> HNone \<Longrightarrow> HStr (the_str h) = h"
  by (cases h) simp_all

lemma py_sorted_strict:
  assumes "py_sorted S = Inr ts"
  shows "sorted_wrt hval_less ts \<and> distinct ts \<and> fset_of_list ts = S"
proof (cases "HNone |\<in>| S")
  case True
  with assms have "S = {|HNone|}" "ts = [HNone]"
    by (auto simp: py_sorted_def split: if_splits)
  then show ?thesis by simp
next
  case False
  let ?xs = "sorted_list_of_fset (the_str |`| S)"
  from False assms have ts: "ts = map HStr ?xs"
    by (simp add: py_sorted_def)
  have strict: "sorted_wrt (<) ?xs"
    by (simp add: sorted_list_of_fset.rep_eq)
  have "sorted_wrt hval_less (map HStr ?xs)"
    using strict by (simp add: sorted_wrt_map)
  moreover have "distinct ?xs"
    using strict by (simp add: strict_sorted_iff)
  then have "distinct (map HStr ?xs)"
    by (simp add: distinct_map inj_on_def)
  moreover have "fset_of_list (map HStr ?xs) = S"
  proof -
    have "fset_of_list (map HStr ?xs) = (\<lambda>h. HStr (the_str h)) |`| S"
      by (simp add: fset.map_comp o_def)
    also have "\<dots> = S"
    proof -
      have "\<And>h. h |\<in>| S \<Longrightarrow> HStr (the_str h) = h"
        using False HStr_the_str by metis
      then show ?thesis
        by (metis (mono_tags, lifting) fset.map_cong fset.map_ident)
    qed
    finally show ?thesis .
  qed
  ultimately show ?thesis using ts by simp
qed

lemma control_rows_tags:
  "collect (control_row cat) ts = Inr rows \<Longrightarrow> concat (map row_tag rows) = ts"
proof (induction ts arbitrary: rows)
  case Nil
  then show ?case by simp
next
  case (Cons t ts)
  then show ?case
    by (auto simp: bindE_eq_Inr control_row_def split: option.splits)
qed

lemma controls_group_tags:
  assumes "controls_group label cls cat S = Inr g"
  shows "py_sorted S = Inr (group_tags g)"
  using assms
  by (auto simp: controls_group_def bindE_eq_Inr control_rows_tags)

lemma collect_iter_elements:
  "collect (\<lambda>kv. py_iter (snd kv)) m = Inr iss \<Longrightarrow> iss = map (\<lambda>kv. elements (snd kv)) m"
proof (induction m arbitrary: iss)
  case Nil
  then show ?case by simp
next
  case (Cons kv m)
  then show ?case by (auto simp: bindE_eq_Inr elements_def)
qed

lemma styles_differ: "styles_get ''packages'' \<noteq> styles_get ''domains''"
  by (simp add: styles_get_def styles_def)

section \<open>Failure of a card rendering\<close>

text \<open>
  C1: a record whose fetch succeeded but whose card rendering fails should be left out of
  the card sequence. In the code \<open>render_cookbook\<close> returns \<open>None\<close> for such a record,
  the loop stores that \<open>None\<close> under the name, and the final comprehension tests only
  whether the name is a key: for the list \<open>c, b\<close>, where the record of \<open>c\<close> cannot be
  rendered, the card sequence is \<open>None\<close> followed by the card of \<open>b\<close>. The card of
  \<open>b\<close> is as it would be alone.
\<close>

theorem render_failure_kept_in_cards:
  "render_cookbook ''c'' example_malformed = None \<and>
   map_sum id snd (render_cookbooks_from [''c'', ''b''] [Some example_malformed, Some example_plain])
     = Inr [None, Some plain_card] \<and>
   map_sum id snd (render_cookbooks_from [''b''] [Some example_plain]) = Inr [Some plain_card]"
  by code_simp

section \<open>Styles of the filter rows\<close>

text \<open>
  C2: the rows of a filter group should carry the style of the group's own category. In
  the code both groups read the variable \<open>category\<close>, which the aggregation loop left
  at its last value \<open>packages\<close>: for one cookbook with two domain tags and one package
  tag, every row of the domains group has the packages style, which is not the domains
  style.
\<close>

theorem domain_rows_styled_as_packages:
  "map_sum id fst (render_cookbooks_from [''a''] [Some example_tagged]) = Inr tagged_controls \<and>
   styles_get ''packages'' \<noteq> styles_get ''domains''"
  by code_simp

section \<open>Order of the fetch results\<close>

text \<open>
  C3: for every list of identifiers and every order in which the tasks finish, the fetch
  returns one slot per identifier, in the order of the list, each slot holding what
  \<open>fetch_cookbook_data\<close> returned for that identifier: the record, or \<open>None\<close> where
  the fetch failed.
\<close>

theorem fetch_all_request_order:
  "fetch_all repr net finish body =
     Some (map (\<lambda>i. fetch_cookbook_data repr (net i) (body ! i)) [0..<length body])"
  unfolding fetch_all_def by (rule pool_map_in_order)

section \<open>Failed fetches are removals\<close>

text \<open>
  The identifier \<open>b\<close> twice, where the first fetch succeeds and the second fails: the
  code shows the card twice, the successful part alone shows it once.
\<close>

theorem duplicate_identifier_counterexample:
  "map_sum id snd (render_cookbooks_from [''b'', ''b''] [Some example_plain, None]) \<noteq>
   map_sum id snd
     (render_cookbooks_from (map fst (successful [''b'', ''b''] [Some example_plain, None]))
        (map snd (successful [''b'', ''b''] [Some example_plain, None])))"
  by code_simp

text \<open>
  C4, amended: for every resource list and every set of failed fetches such that the
  occurrences of one identifier fail or succeed together (as they do where the identifiers
  are distinct), the result, and with it the card sequence, is the one computed from the
  successful resources alone, in their original order.
\<close>

theorem failed_fetches_are_removals:
  assumes len: "length cookbook_entries = length body"
    and together: "\<forall>z \<in> set (zip body cookbook_entries). \<forall>z' \<in> set (zip body cookbook_entries).
                     fst z = fst z' \<longrightarrow> (snd z = None \<longleftrightarrow> snd z' = None)"
  shows "render_cookbooks_from body cookbook_entries =
         render_cookbooks_from (map fst (successful body cookbook_entries))
           (map snd (successful body cookbook_entries))"
proof -
  let ?ok = "successful body cookbook_entries"
  have loop: "render_loop (zip (map fst ?ok) (map snd ?ok)) init_state =
              render_loop (zip body cookbook_entries) init_state"
    by (simp only: zip_successful) (simp only: successful_def render_loop_skips_failed)
  have cards: "List.map_filter (cookbook_data st) body = List.map_filter (cookbook_data st) (map fst ?ok)"
    if run: "render_loop (zip body cookbook_entries) init_state = Inr st" for st
  proof -
    have "dom (cookbook_data st) = fst ` set ?ok"
      using render_loop_dom [OF run] by (simp add: init_state_def successful_def)
    then have "filter (\<lambda>n. cookbook_data st n \<noteq> None) body = map fst ?ok"
      by (rule successful_names [OF len together])
    then show ?thesis
      using map_filter_dom [of "cookbook_data st" body] by simp
  qed
  show ?thesis
  proof (cases "render_loop (zip body cookbook_entries) init_state")
    case (Inl e)
    then show ?thesis
      unfolding render_cookbooks_from_def loop by simp
  next
    case (Inr st)
    then show ?thesis
      unfolding render_cookbooks_from_def loop using cards [OF Inr] by simp
  qed
qed

theorem failed_fetches_are_removals_witness:
  "length [Some example_tagged, None, Some example_plain] = length [''a'', ''b'', ''a''] \<and>
   render_cookbooks_from [''a'', ''b'', ''a''] [Some example_tagged, None, Some example_plain] =
     render_cookbooks_from
       (map fst (successful [''a'', ''b'', ''a''] [Some example_tagged, None, Some example_plain]))
       (map snd (successful [''a'', ''b'', ''a''] [Some example_tagged, None, Some example_plain]))"
proof -
  have len: "length [Some example_tagged, None, Some example_plain] = length [''a'', ''b'', ''a'']"
    by simp
  have together:
    "\<forall>z \<in> set (zip [''a'', ''b'', ''a''] [Some example_tagged, None, Some example_plain]).
     \<forall>z' \<in> set (zip [''a'', ''b'', ''a''] [Some example_tagged, None, Some example_plain]).
       fst z = fst z' \<longrightarrow> (snd z = None \<longleftrightarrow> snd z' = None)"
    by simp
  show ?thesis
    by (intro conjI len failed_fetches_are_removals [OF len together])
qed

section \<open>Aggregation of the tags\<close>

text \<open>
  C5: the tag index does not depend on the order of the fetched records nor on how often
  a record occurs: two lists of fetch results with the same set of records aggregate to
  the same index, a pair of sets, or fail both.
\<close>

theorem aggregation_order_independent:
  assumes "set (fetched es) = set (fetched es')"
  shows "(aggregate es (idx, c) = Inr r) = (aggregate es' (idx, c) = Inr r)"
proof -
  have "fset_of_list (fetched es) = fset_of_list (fetched es')"
    using assms by (simp add: fset_of_list.abs_eq)
  moreover have "(fetched es = []) = (fetched es' = [])"
    using assms by (metis set_empty)
  ultimately show ?thesis
    using assms by (simp add: aggregate_Inr_iff)
qed

theorem aggregation_order_independent_witness:
  "set (fetched [Some example_tagged, Some example_plain]) =
     set (fetched [Some example_plain, None, Some example_tagged, Some example_tagged]) \<and>
   aggregate [Some example_tagged, Some example_plain] (empty_index, None) =
     Inr (tagged_index, Some ''packages'') \<and>
   aggregate [Some example_plain, None, Some example_tagged, Some example_tagged] (empty_index, None) =
     Inr (tagged_index, Some ''packages'')"
proof -
  have same: "set (fetched [Some example_tagged, Some example_plain]) =
     set (fetched [Some example_plain, None, Some example_tagged, Some example_tagged])"
    by (auto simp: fetched_def List.map_filter_def)
  have one: "aggregate [Some example_tagged, Some example_plain] (empty_index, None) =
     Inr (tagged_index, Some ''packages'')"
    by code_simp
  have other: "aggregate [Some example_plain, None, Some example_tagged, Some example_tagged]
      (empty_index, None) = Inr (tagged_index, Some ''packages'')"
    by (rule iffD1 [OF aggregation_order_independent [OF same] one])
  show ?thesis
    by (intro conjI same one other)
qed

section \<open>Order of the filter rows\<close>

text \<open>
  C6: whenever the gallery is rendered, the tags of the rows of each filter group are
  strictly ascending in the lexicographic order, hence without repetition, and they are
  the tags aggregated for the group's category, whatever the order and the repetitions in
  the records.
\<close>

theorem filter_rows_strictly_sorted:
  assumes "render_cookbooks_from body cookbook_entries = Inr (controls, cards)"
  shows "\<exists>dg pg idx c.
           controls = Div [dg, pg] [AClass [''filter-controls'']] \<and>
           aggregate (map snd (zip body cookbook_entries))
             (tag_lists init_state, category init_state) = Inr (idx, c) \<and>
           sorted_wrt hval_less (group_tags dg) \<and> distinct (group_tags dg) \<and>
           fset_of_list (group_tags dg) = domains idx \<and>
           sorted_wrt hval_less (group_tags pg) \<and> distinct (group_tags pg) \<and>
           fset_of_list (group_tags pg) = packages idx"
proof -
  from assms obtain st where
    run: "render_loop (zip body cookbook_entries) init_state = Inr st" and
    ctl: "controls_node (category st) (tag_lists st) = Inr controls"
    by (auto simp: render_cookbooks_from_def bindE_eq_Inr)
  from ctl obtain dg pg where
    dg: "controls_group ''Filter by Domain:'' ''domains'' (category st) (domains (tag_lists st)) = Inr dg" and
    pg: "controls_group ''Filter by Package:'' ''packages'' (category st) (packages (tag_lists st)) = Inr pg" and
    c: "controls = Div [dg, pg] [AClass [''filter-controls'']]"
    by (auto simp: controls_node_def bindE_eq_Inr)
  have agg: "aggregate (map snd (zip body cookbook_entries))
               (tag_lists init_state, category init_state) = Inr (tag_lists st, category st)"
    using render_loop_aggregate [of "zip body cookbook_entries" init_state] run by simp
  show ?thesis
    using c agg py_sorted_strict [OF controls_group_tags [OF dg]]
      py_sorted_strict [OF controls_group_tags [OF pg]]
    by blast
qed

theorem filter_rows_strictly_sorted_witness:
  "render_cookbooks_from [''a''] [Some example_tagged] = Inr (tagged_controls, [Some tagged_card]) \<and>
   (\<exists>dg pg idx c.
      tagged_controls = Div [dg, pg] [AClass [''filter-controls'']] \<and>
      aggregate (map snd (zip [''a''] [Some example_tagged]))
        (tag_lists init_state, category init_state) = Inr (idx, c) \<and>
      sorted_wrt hval_less (group_tags dg) \<and> distinct (group_tags dg) \<and>
      fset_of_list (group_tags dg) = domains idx \<and>
      sorted_wrt hval_less (group_tags pg) \<and> distinct (group_tags pg) \<and>
      fset_of_list (group_tags pg) = packages idx)"
proof -
  have run: "render_cookbooks_from [''a''] [Some example_tagged] =
      Inr (tagged_controls, [Some tagged_card])"
    by code_simp
  show ?thesis
    by (intro conjI run filter_rows_strictly_sorted [OF run])
qed

section \<open>A cookbook without tags\<close>

text \<open>
  C7: where both documents are fetched, the title and the thumbnail are there and the
  gallery document has no tags field, the fetch succeeds, the card is rendered with the
  title and the image, its class list is the marker class alone, it has no label, and
  the record leaves the tag index as it was.
\<close>

theorem no_tags_field:
  assumes "net (config_url name) = Some config"
    and "subscript config ''project'' = Inr project"
    and "subscript project ''title'' = Inr t"
    and "net (gallery_url name) = Some (YMap g)"
    and "map_of g ''thumbnail'' = Some thumbnail"
    and "map_of g ''tags'' = None"
  shows "\<exists>data. fetch_cookbook_data repr net name = Some data \<and>
           render_cookbook name data =
             Some (Card (''https://projectpythia-mystmd.github.io/'' @ name) [YStr ''tagged-card'']
                    [CardTitle [Text t],
                     Div [Img (raw_base_url name @ ''/'' @ py_str repr thumbnail), Div [] []] []]) \<and>
           collect_tags data (idx, c) = Inr (idx, Some ''packages'')"
  using assms
  by (simp add: fetch_cookbook_data_def fetch_yaml_def render_cookbook_def card_class_def
      card_labels_def collect_tags_def collect_category_def set_update_def)

theorem no_tags_field_witness:
  "example_net (config_url ''b'') = Some example_config \<and>
   subscript example_config ''project'' = Inr (YMap [(''title'', YStr ''Plain'')]) \<and>
   subscript (YMap [(''title'', YStr ''Plain'')]) ''title'' = Inr (YStr ''Plain'') \<and>
   example_net (gallery_url ''b'') = Some (YMap example_gallery) \<and>
   map_of example_gallery ''thumbnail'' = Some (YStr ''thumb.png'') \<and>
   map_of example_gallery ''tags'' = None \<and>
   (\<exists>data. fetch_cookbook_data (\<lambda>v. []) example_net ''b'' = Some data \<and>
      render_cookbook ''b'' data =
        Some (Card (''https://projectpythia-mystmd.github.io/'' @ ''b'') [YStr ''tagged-card'']
               [CardTitle [Text (YStr ''Plain'')],
                Div [Img (raw_base_url ''b'' @ ''/'' @ py_str (\<lambda>v. []) (YStr ''thumb.png'')),
                     Div [] []] []]) \<and>
      collect_tags data (tagged_index, None) = Inr (tagged_index, Some ''packages''))"
proof -
  have h1: "example_net (config_url ''b'') = Some example_config"
    by (simp add: example_net_def)
  have h2: "subscript example_config ''project'' = Inr (YMap [(''title'', YStr ''Plain'')])"
    by (simp add: example_config_def)
  have h3: "subscript (YMap [(''title'', YStr ''Plain'')]) ''title'' = Inr (YStr ''Plain'')"
    by simp
  have h4: "example_net (gallery_url ''b'') = Some (YMap example_gallery)"
    by (simp add: example_net_def config_url_def gallery_url_def)
  have h5: "map_of example_gallery ''thumbnail'' = Some (YStr ''thumb.png'')"
    by (simp add: example_gallery_def)
  have h6: "map_of example_gallery ''tags'' = None"
    by (simp add: example_gallery_def)
  show ?thesis
    by (intro conjI h1 h2 h3 h4 h5 h6 no_tags_field [OF h1 h2 h3 h4 h5 h6])
qed

section \<open>The class list of a card\<close>

text \<open>
  The marker class of the code is \<open>tagged-card\<close>, not \<open>tagged\<close>: the class list of the
  card of the tagged example is not \<open>tagged\<close> followed by its tags.
\<close>

theorem marker_class_counterexample:
  "map_option card_classes (render_cookbook ''a'' example_tagged) \<noteq>
   Some [YStr ''tagged'', YStr ''radar'', YStr ''ocean'', YStr ''radar'', YStr ''xarray'']"
  by code_simp

text \<open>
  C8, amended: for every successfully rendered record, the tags are a mapping and the
  class list of the card is the fixed marker class \<open>tagged-card\<close> followed by the
  elements of every category's sequence, category after category in the order of the
  mapping and in the order of each sequence, repetitions kept.
\<close>

theorem card_class_list:
  assumes "render_cookbook name data = Some c"
  shows "\<exists>m. tags data = YMap m \<and>
             card_classes c = YStr ''tagged-card'' # concat (map (\<lambda>kv. elements (snd kv)) m)"
proof -
  from assms obtain cls labels where
    cls: "card_class (tags data) = Inr cls" and
    c: "c = Card (book_url data) cls
              [CardTitle [Text (title data)], Div [Img (image_url data), Div labels []] []]"
    by (auto simp: render_cookbook_def bindE_eq_Inr split: sum.splits)
  from cls obtain m where m: "tags data = YMap m"
    by (cases "tags data") (simp_all add: card_class_def)
  from cls m obtain iss where
    "collect (\<lambda>kv. py_iter (snd kv)) m = Inr iss" "cls = YStr ''tagged-card'' # concat iss"
    by (auto simp: card_class_def bindE_eq_Inr)
  then show ?thesis
    using m c collect_iter_elements by auto
qed

theorem card_class_list_witness:
  "render_cookbook ''a'' example_tagged = Some tagged_card \<and>
   (\<exists>m. tags example_tagged = YMap m \<and>
      card_classes tagged_card = YStr ''tagged-card'' # concat (map (\<lambda>kv. elements (snd kv)) m))"
proof -
  have run: "render_cookbook ''a'' example_tagged = Some tagged_card"
    by code_simp
  show ?thesis
    by (intro conjI run card_class_list [OF run])
qed

section \<open>Determinism\<close>

text \<open>
  C9: with the same resource list, the same document tree and the same answers of the
  network, two runs of the transform give the same result, whatever the order in which
  the fetch tasks of either run finish. Nothing else varies between two runs: the sets of
  tags are only read through \<open>sorted\<close>.
\<close>

theorem run_transform_deterministic:
  "run_transform repr net finish body data = run_transform repr net finish' body data"
  by (simp add: run_transform_def render_cookbooks_def fetch_all_def pool_map_in_order)

section \<open>Tags of records whose card cannot be rendered\<close>

text \<open>
  The filter controls are those of the tags aggregated over every entry for which the
  fetch returned data; the aggregation does not call \<open>render_cookbook\<close>.
\<close>

lemma controls_from_all_fetched:
  "map_sum id fst (render_cookbooks_from body cookbook_entries) =
   bindE (aggregate (map snd (zip body cookbook_entries)) (tag_lists init_state, category init_state))
     (\<lambda>tc. controls_node (snd tc) (fst tc))"
proof (cases "render_loop (zip body cookbook_entries) init_state")
  case (Inl e)
  then have "aggregate (map snd (zip body cookbook_entries)) (tag_lists init_state, category init_state)
             = Inl e"
    using render_loop_aggregate [of "zip body cookbook_entries" init_state] by simp
  then show ?thesis
    using Inl by (simp add: render_cookbooks_from_def)
next
  case (Inr st)
  then have "aggregate (map snd (zip body cookbook_entries)) (tag_lists init_state, category init_state)
             = Inr (tag_lists st, category st)"
    using render_loop_aggregate [of "zip body cookbook_entries" init_state] by simp
  then show ?thesis
    using Inr by (cases "controls_node (category st) (tag_lists st)") (simp_all add: render_cookbooks_from_def)
qed

text \<open>
  A record whose fetch succeeded and whose \<open>packages\<close> category has no value: its card
  cannot be rendered, and its tags reach no tag index and no filter control, because the
  aggregation raises on the null and the exception ends \<open>render_cookbooks\<close>.
\<close>

theorem aborted_run_counterexample:
  "render_cookbook ''d'' example_null_packages = None \<and>
   render_cookbooks_from [''d''] [Some example_null_packages] = Inl TypeError"
  by code_simp

text \<open>
  C10, amended: whenever \<open>render_cookbooks\<close> returns, every resource for which the fetch
  returned data has each item of its domains and packages sequences among the rows of the
  filter group of that category, whatever \<open>render_cookbook\<close> returned for it: also a
  resource whose card rendering failed contributes its tags.
\<close>

theorem fetched_record_tags_in_controls:
  assumes run: "render_cookbooks_from body cookbook_entries = Inr (controls, cards)"
    and entry: "(name, Some data) \<in> set (zip body cookbook_entries)"
  shows "\<exists>dg pg.
           controls = Div [dg, pg] [AClass [''filter-controls'']] \<and>
           py_hash ` set (category_items ''domains'' data) \<subseteq> Inr ` set (group_tags dg) \<and>
           py_hash ` set (category_items ''packages'' data) \<subseteq> Inr ` set (group_tags pg)"
proof -
  let ?es = "map snd (zip body cookbook_entries)"
  from run obtain st where
    loop: "render_loop (zip body cookbook_entries) init_state = Inr st" and
    ctl: "controls_node (category st) (tag_lists st) = Inr controls"
    by (auto simp: render_cookbooks_from_def bindE_eq_Inr)
  from ctl obtain dg pg where
    dg: "controls_group ''Filter by Domain:'' ''domains'' (category st) (domains (tag_lists st)) = Inr dg" and
    pg: "controls_group ''Filter by Package:'' ''packages'' (category st) (packages (tag_lists st)) = Inr pg" and
    c: "controls = Div [dg, pg] [AClass [''filter-controls'']]"
    by (auto simp: controls_node_def bindE_eq_Inr)
  have agg: "aggregate ?es (tag_lists init_state, category init_state) = Inr (tag_lists st, category st)"
    using render_loop_aggregate [of "zip body cookbook_entries" init_state] loop by simp
  have mem: "data \<in> set (fetched ?es)"
    using entry by (intro fetched_member) force
  from agg have ok: "collectable data" and
    idx: "tag_lists st =
      \<lparr>domains = domains (tag_lists init_state) |\<union>|
          ffUnion (record_tags ''domains'' |`| fset_of_list (fetched ?es)),
       packages = packages (tag_lists init_state) |\<union>|
          ffUnion (record_tags ''packages'' |`| fset_of_list (fetched ?es))\<rparr>"
    using mem by (simp_all add: aggregate_Inr_iff)
  have d_sub: "record_tags ''domains'' data |\<subseteq>| domains (tag_lists st)"
    using record_tags_in_union [OF mem] by (subst idx) simp
  have p_sub: "record_tags ''packages'' data |\<subseteq>| packages (tag_lists st)"
    using record_tags_in_union [OF mem] by (subst idx) simp
  have d_rows: "fset (domains (tag_lists st)) = set (group_tags dg)"
    using py_sorted_strict [OF controls_group_tags [OF dg]] by (metis fset_of_list.rep_eq)
  have p_rows: "fset (packages (tag_lists st)) = set (group_tags pg)"
    using py_sorted_strict [OF controls_group_tags [OF pg]] by (metis fset_of_list.rep_eq)
  have "py_hash ` set (category_items ''domains'' data) \<subseteq> Inr ` set (group_tags dg)"
    using ok d_sub d_rows category_items_hashed [of "''domains''" data]
    by (auto simp: collectable_def less_eq_fset.rep_eq)
  moreover have "py_hash ` set (category_items ''packages'' data) \<subseteq> Inr ` set (group_tags pg)"
    using ok p_sub p_rows category_items_hashed [of "''packages''" data]
    by (auto simp: collectable_def less_eq_fset.rep_eq)
  ultimately show ?thesis using c by blast
qed

theorem fetched_record_tags_in_controls_witness:
  "render_cookbook ''c'' example_malformed = None \<and>
   render_cookbooks_from [''c''] [Some example_malformed] = Inr (malformed_controls, [None]) \<and>
   (''c'', Some example_malformed) \<in> set (zip [''c''] [Some example_malformed]) \<and>
   (\<exists>dg pg.
      malformed_controls = Div [dg, pg] [AClass [''filter-controls'']] \<and>
      py_hash ` set (category_items ''domains'' example_malformed) \<subseteq> Inr ` set (group_tags dg) \<and>
      py_hash ` set (category_items ''packages'' example_malformed) \<subseteq> Inr ` set (group_tags pg))"
proof -
  have failed: "render_cookbook ''c'' example_malformed = None"
    by code_simp
  have run: "render_cookbooks_from [''c''] [Some example_malformed] = Inr (malformed_controls, [None])"
    by code_simp
  have entry: "(''c'', Some example_malformed) \<in> set (zip [''c''] [Some example_malformed])"
    by simp
  show ?thesis
    by (intro conjI failed run entry fetched_record_tags_in_controls [OF run entry])
qed

end
